theory Spec2Isabelle
  imports Complex_Main "HOL-Library.AList"
begin

section \<open>JavaScript values as the handlers see them\<close>

text \<open>
  Request bodies, route parameters, stored documents and query results are untyped
  JavaScript values. An object is the list of its own enumerable properties in
  enumeration order; an array is the list of its elements together with the named
  (non-index) own properties that an assignment such as \<^verbatim>\<open>arr.name = v\<close> adds.
  A number is one that JSON can carry, so never \<^verbatim>\<open>NaN\<close>. A value decoded from JSON
  has no \<open>JUndefined\<close> inside and no named property on an array.
\<close>

datatype jsval =
    JUndefined
  | JNull
  | JBool bool
  | JNum real
  | JStr string
  | JArr "jsval list" "(string \<times> jsval) list"
  | JObj "(string \<times> jsval) list"

text \<open>What a \<^verbatim>\<open>throw\<close> carries: a \<^verbatim>\<open>TypeError\<close> of the language itself, or
  an error raised by the document store client, each with its message text.\<close>

datatype exn = TypeError string | StoreError string

text \<open>\<^verbatim>\<open>if (v)\<close> and \<^verbatim>\<open>!v\<close>: the falsy values are \<^verbatim>\<open>undefined\<close>,
  \<^verbatim>\<open>null\<close>, \<^verbatim>\<open>false\<close>, \<^verbatim>\<open>0\<close> and the empty string.\<close>

fun truthy :: "jsval \<Rightarrow> bool" where
  "truthy JUndefined = False"
| "truthy JNull = False"
| "truthy (JBool b) = b"
| "truthy (JNum r) = (r \<noteq> 0)"
| "truthy (JStr s) = (s \<noteq> [])"
| "truthy (JArr xs ps) = True"
| "truthy (JObj kvs) = True"

fun typeof :: "jsval \<Rightarrow> string" where
  "typeof JUndefined = ''undefined''"
| "typeof JNull = ''object''"
| "typeof (JBool b) = ''boolean''"
| "typeof (JNum r) = ''number''"
| "typeof (JStr s) = ''string''"
| "typeof (JArr xs ps) = ''object''"
| "typeof (JObj kvs) = ''object''"

text \<open>The string behind a value that \<open>typeof\<close> has already found to be a string.\<close>

fun str_of :: "jsval \<Rightarrow> string" where
  "str_of (JStr s) = s"
| "str_of v = []"

text \<open>Decimal notation of an array index, as property keys spell it.\<close>

fun show_nat :: "nat \<Rightarrow> string" where
  "show_nat n =
     (if n < 10 then [''0123456789'' ! n]
      else show_nat (n div 10) @ [''0123456789'' ! (n mod 10)])"

declare show_nat.simps [simp del]

text \<open>The own enumerable string-keyed properties of a value that is neither
  \<^verbatim>\<open>null\<close> nor \<^verbatim>\<open>undefined\<close>, in enumeration order: index keys first.\<close>

fun own_props :: "jsval \<Rightarrow> (string \<times> jsval) list" where
  "own_props (JObj kvs) = kvs"
| "own_props (JArr xs ps) = zip (map show_nat [0..<length xs]) xs @ ps"
| "own_props (JStr s) = zip (map show_nat [0..<length s]) (map (\<lambda>c. JStr [c]) s)"
| "own_props v = []"

definition nullish :: "jsval \<Rightarrow> bool" where
  "nullish v = (v = JUndefined \<or> v = JNull)"

text \<open>
  \<^verbatim>\<open>v.k\<close> and \<^verbatim>\<open>v[i]\<close>: a read on \<^verbatim>\<open>null\<close> or \<^verbatim>\<open>undefined\<close> throws,
  a missing property reads as \<^verbatim>\<open>undefined\<close>. Only own properties are looked up: the
  names the handlers read (\<^verbatim>\<open>id\<close>, \<^verbatim>\<open>name\<close>, \<^verbatim>\<open>description\<close>,
  \<^verbatim>\<open>adminId\<close>, \<^verbatim>\<open>leagueId\<close>, \<^verbatim>\<open>teamId\<close>, \<^verbatim>\<open>rows\<close>,
  \<^verbatim>\<open>usersTeams\<close>, \<^verbatim>\<open>content\<close>, \<^verbatim>\<open>0\<close>) are on no prototype.
\<close>

definition getProp :: "jsval \<Rightarrow> string \<Rightarrow> exn + jsval" where
  "getProp v k =
     (if nullish v then Inl (TypeError ''Cannot read properties of undefined or null'')
      else Inr (case map_of (own_props v) k of
                  None \<Rightarrow> JUndefined
                | Some x \<Rightarrow> x))"

text \<open>\<^verbatim>\<open>Object.keys(v)\<close> and \<^verbatim>\<open>Object.values(v)\<close>.\<close>

definition Object_keys :: "jsval \<Rightarrow> exn + string list" where
  "Object_keys v =
     (if nullish v then Inl (TypeError ''Cannot convert undefined or null to object'')
      else Inr (map fst (own_props v)))"

definition Object_values :: "jsval \<Rightarrow> exn + jsval list" where
  "Object_values v =
     (if nullish v then Inl (TypeError ''Cannot convert undefined or null to object'')
      else Inr (map snd (own_props v)))"

text \<open>
  \<^verbatim>\<open>v.k = x\<close> in strict mode (the sources are modules), for a name \<open>k\<close> that is not
  an array index: an existing property keeps its place, a new one is added last.
  On a primitive the assignment throws.
\<close>

fun setProp :: "jsval \<Rightarrow> string \<Rightarrow> jsval \<Rightarrow> exn + jsval" where
  "setProp (JObj kvs) k x = Inr (JObj (AList.update k x kvs))"
| "setProp (JArr xs ps) k x = Inr (JArr xs (AList.update k x ps))"
| "setProp v k x = Inl (TypeError ''Cannot create or set property'')"

text \<open>Sequencing of computations that may throw.\<close>

definition bindE :: "exn + 'a \<Rightarrow> ('a \<Rightarrow> exn + 'b) \<Rightarrow> exn + 'b" where
  "bindE m f = (case m of Inl e \<Rightarrow> Inl e | Inr v \<Rightarrow> f v)"

text \<open>\<^verbatim>\<open>arr.map(f)\<close>: the callback runs on the elements from left to right and the
  first throw ends the loop; on a value that is no array, \<^verbatim>\<open>map\<close> is not a function.\<close>

fun mapE :: "('a \<Rightarrow> exn + 'b) \<Rightarrow> 'a list \<Rightarrow> exn + 'b list" where
  "mapE f [] = Inr []"
| "mapE f (x # xs) =
     bindE (f x) (\<lambda>y. bindE (mapE f xs) (\<lambda>ys. Inr (y # ys)))"

fun array_map :: "(jsval \<Rightarrow> exn + jsval) \<Rightarrow> jsval \<Rightarrow> exn + jsval" where
  "array_map f (JArr xs ps) = bindE (mapE f xs) (\<lambda>ys. Inr (JArr ys []))"
| "array_map f v = Inl (TypeError ''map is not a function'')"

text \<open>\<^verbatim>\<open>arr.flat()\<close>: one level; an element that is an array is replaced by its elements.\<close>

fun flat_elem :: "jsval \<Rightarrow> jsval list" where
  "flat_elem (JArr ys ps) = ys"
| "flat_elem v = [v]"

fun array_flat :: "jsval \<Rightarrow> exn + jsval" where
  "array_flat (JArr xs ps) = Inr (JArr (concat (map flat_elem xs)) [])"
| "array_flat v = Inl (TypeError ''flat is not a function'')"

section \<open>The document store client\<close>

text \<open>
  The handlers run against a Couchbase collection and cluster, which are not part of the
  repository. They are parameters of the model: each operation takes the store's state
  and returns what the call returned or threw, with the state after the call.
\<close>

type_synonym ('a, 's) io = "'s \<Rightarrow> (exn + 'a) \<times> 's"

record 's Collection =
  collection_insert :: "string \<Rightarrow> jsval \<Rightarrow> (jsval, 's) io"
  collection_get :: "string \<Rightarrow> (jsval, 's) io"
  collection_replace :: "string \<Rightarrow> jsval \<Rightarrow> (jsval, 's) io"

record 's Cluster =
  cluster_query :: "string \<Rightarrow> jsval \<Rightarrow> (jsval, 's) io"

definition returnM :: "'a \<Rightarrow> ('a, 's) io" where
  "returnM v = (\<lambda>s. (Inr v, s))"

definition liftE :: "exn + 'a \<Rightarrow> ('a, 's) io" where
  "liftE r = (\<lambda>s. (r, s))"

definition bindM :: "('a, 's) io \<Rightarrow> ('a \<Rightarrow> ('b, 's) io) \<Rightarrow> ('b, 's) io" where
  "bindM m f = (\<lambda>s. case m s of (Inl e, s') \<Rightarrow> (Inl e, s') | (Inr v, s') \<Rightarrow> f v s')"

text \<open>\<^verbatim>\<open>try { body } catch (err) { handler }\<close> around a body that returns a response.\<close>

definition try_catch :: "('a, 's) io \<Rightarrow> (exn \<Rightarrow> 'a) \<Rightarrow> 's \<Rightarrow> 'a \<times> 's" where
  "try_catch m h = (\<lambda>s. case m s of (Inl e, s') \<Rightarrow> (h e, s') | (Inr r, s') \<Rightarrow> (r, s'))"

section \<open>LeagueController: the store accessors\<close>

record 's LeagueController =
  collection :: "'s Collection"
  cluster :: "'s Cluster"

definition controller_insert :: "'s LeagueController \<Rightarrow> string \<Rightarrow> jsval \<Rightarrow> (jsval, 's) io" where
  "controller_insert this id' data = collection_insert (collection this) id' data"

definition controller_get :: "'s LeagueController \<Rightarrow> string \<Rightarrow> (jsval, 's) io" where
  "controller_get this key = collection_get (collection this) key"

text \<open>\<^verbatim>\<open>replace\<close> awaits the store and returns nothing.\<close>

definition controller_replace :: "'s LeagueController \<Rightarrow> string \<Rightarrow> jsval \<Rightarrow> (jsval, 's) io" where
  "controller_replace this key updatedDocument =
     bindM (collection_replace (collection this) key updatedDocument) (\<lambda>_. returnM JUndefined)"

definition controller_query :: "'s LeagueController \<Rightarrow> string \<Rightarrow> jsval \<Rightarrow> (jsval, 's) io" where
  "controller_query this query options = cluster_query (cluster this) query options"

section \<open>LeagueService\<close>

record 's LeagueService =
  leagueController :: "'s LeagueController"

definition toCreateLeague ::
  "'s LeagueService \<Rightarrow> string \<Rightarrow> string \<Rightarrow> string \<Rightarrow> string \<Rightarrow> (jsval, 's) io" where
  "toCreateLeague this id' name description adminId =
     (let league = JObj [(''id'', JStr id'),
                         (''type'', JStr ''mpg_league''),
                         (''adminId'', JStr adminId),
                         (''name'', JStr name),
                         (''description'', JStr description)]
      in controller_insert (leagueController this) id' league)"

definition users_query :: string where
  "users_query =
     ''SELECT usersTeams FROM `mpg` WHERE id = $leagueId AND type = '' @ [CHR 0x22] @
     ''mpg_league'' @ [CHR 0x22]"

definition toGetUsersFromLeague :: "'s LeagueService \<Rightarrow> jsval \<Rightarrow> (jsval, 's) io" where
  "toGetUsersFromLeague this options =
     controller_query (leagueController this) users_query options"

definition toGetTeam :: "'s LeagueService \<Rightarrow> string \<Rightarrow> (jsval, 's) io" where
  "toGetTeam this teamId = controller_get (leagueController this) teamId"

definition toUpdateTeam :: "'s LeagueService \<Rightarrow> string \<Rightarrow> jsval \<Rightarrow> (jsval, 's) io" where
  "toUpdateTeam this teamId updatedDocument =
     bindM (controller_replace (leagueController this) teamId updatedDocument)
       (\<lambda>_. returnM JUndefined)"

section \<open>The request handlers\<close>

record request =
  body :: jsval
  params :: jsval

text \<open>\<^verbatim>\<open>res.status(n).json(v)\<close>; \<^verbatim>\<open>res.json(v)\<close> alone answers with status 200.\<close>

record response =
  status :: nat
  json :: jsval

definition error_json :: "string \<Rightarrow> jsval" where
  "error_json msg = JObj [(''error'', JStr msg)]"

subsection \<open>createLeague\<close>

definition createLeague_try :: "'s LeagueService \<Rightarrow> request \<Rightarrow> (response, 's) io" where
  "createLeague_try leagueService req =
     (if \<not> truthy (body req)
      then returnM \<lparr>status = 400, json = error_json ''Request body is missing''\<rparr>
      else
        bindM (liftE (getProp (body req) ''id'')) (\<lambda>id'.
        bindM (liftE (getProp (body req) ''name'')) (\<lambda>name.
        bindM (liftE (getProp (body req) ''description'')) (\<lambda>description.
        bindM (liftE (getProp (body req) ''adminId'')) (\<lambda>adminId.
          if \<not> (truthy id' \<or> truthy name \<or> truthy description \<or> truthy adminId)
          then returnM \<lparr>status = 400, json = error_json ''Missing required properties''\<rparr>
          else if typeof id' \<noteq> ''string'' \<or> typeof name \<noteq> ''string''
                  \<or> typeof description \<noteq> ''string'' \<or> typeof adminId \<noteq> ''string''
          then returnM \<lparr>status = 400, json = error_json ''Invalid data type for properties''\<rparr>
          else
            bindM (toCreateLeague leagueService (str_of id') (str_of name)
                     (str_of description) (str_of adminId)) (\<lambda>result.
            returnM \<lparr>status = 200, json = result\<rparr>))))))"

definition createLeague :: "'s LeagueService \<Rightarrow> request \<Rightarrow> 's \<Rightarrow> response \<times> 's" where
  "createLeague leagueService req =
     try_catch (createLeague_try leagueService req)
       (\<lambda>err. \<lparr>status = 500, json = error_json ''An error occured whild creating the league''\<rparr>)"

subsection \<open>getUsersFromLeague\<close>

text \<open>
  \<^verbatim>\<open>req\<close> itself is always an object, so \<^verbatim>\<open>!req\<close> is false. The condition
  \<^verbatim>\<open>result.rows && result.rows[0] && Object.keys(result.rows[0]).length > 0\<close>
  is evaluated from left to right and stops at the first falsy operand.
\<close>

definition users_found :: "jsval \<Rightarrow> exn + bool" where
  "users_found result =
     bindE (getProp result ''rows'') (\<lambda>rows.
       if \<not> truthy rows then Inr False
       else bindE (getProp rows ''0'') (\<lambda>row0.
         if \<not> truthy row0 then Inr False
         else bindE (Object_keys row0) (\<lambda>keys. Inr (length keys > 0))))"

definition getUsersFromLeague_try :: "'s LeagueService \<Rightarrow> request \<Rightarrow> (response, 's) io" where
  "getUsersFromLeague_try leagueService req =
     (if \<not> truthy (params req)
      then returnM \<lparr>status = 400, json = error_json ''Request params is missing''\<rparr>
      else
        bindM (liftE (getProp (params req) ''leagueId'')) (\<lambda>leagueId.
        if \<not> truthy leagueId
        then returnM \<lparr>status = 400, json = error_json ''Request params is missing''\<rparr>
        else
          let options = JObj [(''parameters'', JObj [(''leagueId'', leagueId)])] in
          bindM (toGetUsersFromLeague leagueService options) (\<lambda>result.
          liftE (
            bindE (users_found result) (\<lambda>found.
            if found then
              bindE (getProp result ''rows'') (\<lambda>rows.
              bindE (array_map (\<lambda>row. getProp row ''usersTeams'') rows) (\<lambda>mapped.
              bindE (array_flat mapped) (\<lambda>userTeams.
              bindE (getProp userTeams ''0'') (\<lambda>first.
              bindE (Object_values first) (\<lambda>vals.
                let users = JArr (map (\<lambda>name. JObj [(''name'', name)]) vals) [] in
                Inr \<lparr>status = 200, json = JObj [(''users'', users)]\<rparr>)))))
            else
              Inr \<lparr>status = 204, json = JObj [(''users'', JArr [] [])]\<rparr>)))))"

definition getUsersFromLeague :: "'s LeagueService \<Rightarrow> request \<Rightarrow> 's \<Rightarrow> response \<times> 's" where
  "getUsersFromLeague leagueService req =
     try_catch (getUsersFromLeague_try leagueService req)
       (\<lambda>err. \<lparr>status = 500,
                json = error_json ''Error occured while retrieving users from a league''\<rparr>)"

subsection \<open>updateTeamName\<close>

text \<open>In \<^verbatim>\<open>!result || !result.content\<close> the second operand is read only when the
  first is false, so the read cannot throw.\<close>

definition updateTeamName_try :: "'s LeagueService \<Rightarrow> request \<Rightarrow> (response, 's) io" where
  "updateTeamName_try leagueService req =
     (if \<not> truthy (body req) \<or> \<not> truthy (params req)
      then returnM \<lparr>status = 400,
                     json = error_json ''Request body or request params is undefined''\<rparr>
      else
        bindM (liftE (getProp (params req) ''teamId'')) (\<lambda>teamId.
        bindM (liftE (getProp (body req) ''name'')) (\<lambda>name.
          if \<not> truthy teamId \<or> \<not> truthy name
          then returnM \<lparr>status = 400, json = error_json ''teamId and name are required''\<rparr>
          else if typeof teamId \<noteq> ''string'' \<or> typeof name \<noteq> ''string''
          then returnM \<lparr>status = 400, json = error_json ''Invalid data type for properties''\<rparr>
          else
            bindM (toGetTeam leagueService (str_of teamId)) (\<lambda>result.
            if \<not> truthy result
            then returnM \<lparr>status = 404, json = error_json ''Team not found''\<rparr>
            else
              bindM (liftE (getProp result ''content'')) (\<lambda>content.
              if \<not> truthy content
              then returnM \<lparr>status = 404, json = error_json ''Team not found''\<rparr>
              else
                bindM (liftE (setProp content ''name'' name)) (\<lambda>team.
                bindM (toUpdateTeam leagueService (str_of teamId) team) (\<lambda>_.
                returnM \<lparr>status = 200,
                         json = JObj [(''message'',
                                       JStr ''Team name updated successfully'')]\<rparr>)))))))"

definition updateTeamName :: "'s LeagueService \<Rightarrow> request \<Rightarrow> 's \<Rightarrow> response \<times> 's" where
  "updateTeamName leagueService req =
     try_catch (updateTeamName_try leagueService req)
       (\<lambda>err. \<lparr>status = 500, json = error_json ''An error occured while updating team''\<rparr>)"

section \<open>A reference document store\<close>

text \<open>
  Modelled from the spec: the document store client (the Couchbase SDK, which is no part
  of the repository). Section 2 and section 6 of the specification give its interface:
  \<^verbatim>\<open>insert(key, doc) -> ack | throws\<close>, \<^verbatim>\<open>get(key) -> {content} | throws\<close>,
  \<^verbatim>\<open>replace(key, doc) -> void | throws\<close>, throwing on a duplicate-key insert and on a
  missing-key get. The store maps keys to documents and keeps a document as it was given.
\<close>

type_synonym store = "string \<rightharpoonup> jsval"

text \<open>Modelled from the spec: \<^verbatim>\<open>insert(key, doc) -> ack | throws\<close>, the insert-if-absent
  of the store client; it throws when the key is taken. The acknowledgment, whose shape the
  specification leaves open, is a parameter.\<close>

definition mem_insert :: "jsval \<Rightarrow> string \<Rightarrow> jsval \<Rightarrow> (jsval, store) io" where
  "mem_insert ack key doc =
     (\<lambda>s. case s key of
             Some old \<Rightarrow> (Inl (StoreError ''document exists''), s)
           | None \<Rightarrow> (Inr ack, s(key \<mapsto> doc)))"

text \<open>Modelled from the spec: \<^verbatim>\<open>get(key) -> {content} | throws\<close> of the store client;
  it throws on a missing key.\<close>

definition mem_get :: "string \<Rightarrow> (jsval, store) io" where
  "mem_get key =
     (\<lambda>s. case s key of
             None \<Rightarrow> (Inl (StoreError ''document not found''), s)
           | Some doc \<Rightarrow> (Inr (JObj [(''content'', doc)]), s))"

text \<open>Modelled from the spec: \<^verbatim>\<open>replace(key, doc) -> void | throws\<close> of the store
  client, a full replacement of the document under an existing key.\<close>

definition mem_replace :: "jsval \<Rightarrow> string \<Rightarrow> jsval \<Rightarrow> (jsval, store) io" where
  "mem_replace ack key doc =
     (\<lambda>s. case s key of
             None \<Rightarrow> (Inl (StoreError ''document not found''), s)
           | Some old \<Rightarrow> (Inr ack, s(key \<mapsto> doc)))"

definition mem_service :: "jsval \<Rightarrow> (string \<Rightarrow> jsval \<Rightarrow> (jsval, store) io) \<Rightarrow> store LeagueService" where
  "mem_service ack q =
     \<lparr>leagueController =
        \<lparr>collection = \<lparr>collection_insert = mem_insert ack,
                        collection_get = mem_get,
                        collection_replace = mem_replace ack\<rparr>,
         cluster = \<lparr>cluster_query = q\<rparr>\<rparr>\<rparr>"

text \<open>A store whose calls all throw, a store that can be read but whose writes throw, and
  a query that answers with a fixed result.\<close>

definition readonly_service :: "exn \<Rightarrow> jsval \<Rightarrow> unit LeagueService" where
  "readonly_service e doc =
     \<lparr>leagueController =
        \<lparr>collection = \<lparr>collection_insert = (\<lambda>k d s. (Inl e, s)),
                        collection_get = (\<lambda>k s. (Inr (JObj [(''content'', doc)]), s)),
                        collection_replace = (\<lambda>k d s. (Inl e, s))\<rparr>,
         cluster = \<lparr>cluster_query = (\<lambda>q opts s. (Inl e, s))\<rparr>\<rparr>\<rparr>"

definition failing_service :: "exn \<Rightarrow> unit LeagueService" where
  "failing_service e =
     \<lparr>leagueController =
        \<lparr>collection = \<lparr>collection_insert = (\<lambda>k d s. (Inl e, s)),
                        collection_get = (\<lambda>k s. (Inl e, s)),
                        collection_replace = (\<lambda>k d s. (Inl e, s))\<rparr>,
         cluster = \<lparr>cluster_query = (\<lambda>q opts s. (Inl e, s))\<rparr>\<rparr>\<rparr>"

definition fixed_query :: "jsval \<Rightarrow> string \<Rightarrow> jsval \<Rightarrow> (jsval, store) io" where
  "fixed_query result q opts = (\<lambda>s. (Inr result, s))"

section \<open>Basic facts about values and sequencing\<close>

lemma truthy_not_nullish: "truthy v \<Longrightarrow> \<not> nullish v"
  by (auto simp: nullish_def)

lemma getProp_truthy:
  "truthy v \<Longrightarrow>
   getProp v k = Inr (case map_of (own_props v) k of None \<Rightarrow> JUndefined | Some x \<Rightarrow> x)"
  by (simp add: getProp_def truthy_not_nullish)

lemma getProp_JObj:
  "getProp (JObj kvs) k = Inr (case map_of kvs k of None \<Rightarrow> JUndefined | Some x \<Rightarrow> x)"
  by (simp add: getProp_truthy)

lemma getProp_defined_truthy: "getProp v k = Inr x \<Longrightarrow> x \<noteq> JUndefined \<Longrightarrow> truthy v"
  by (cases v) (auto simp: getProp_def nullish_def split: if_splits)

lemma getProp_JStr_truthy: "getProp v k = Inr (JStr x) \<Longrightarrow> truthy v"
  by (erule getProp_defined_truthy) simp

lemma show_nat_0: "show_nat 0 = ''0''"
  by (simp add: show_nat.simps)

lemma getProp_index0: "getProp (JArr (x # xs) ps) ''0'' = Inr x"
  by (simp add: getProp_def nullish_def upt_conv_Cons show_nat_0 del: upt_Suc)

lemma getProp_index0_empty: "getProp (JArr [] []) ''0'' = Inr JUndefined"
  by (simp add: getProp_def nullish_def)

lemma updated_fields:
  "getProp (JObj (AList.update k x kvs)) k = Inr x"
  "k' \<noteq> k \<Longrightarrow> getProp (JObj (AList.update k x kvs)) k' = getProp (JObj kvs) k'"
  "Object_keys (JObj (AList.update k x kvs)) =
     Inr (if k \<in> fst ` set kvs then map fst kvs else map fst kvs @ [k])"
  by (simp_all add: getProp_JObj update_conv' Object_keys_def nullish_def update_keys)

lemma setProp_twice:
  "setProp d k x = Inr d' \<Longrightarrow> setProp d' k x = Inr d' \<and> truthy d'"
  by (cases d) auto

lemma bindM_liftE_Inr [simp]: "bindM (liftE (Inr v)) f = f v"
  by (simp add: bindM_def liftE_def)

lemma bindM_returnM [simp]: "bindM (returnM v) f = f v"
  by (simp add: bindM_def returnM_def)

lemma bindM_assoc: "bindM (bindM m f) g = bindM m (\<lambda>x. bindM (f x) g)"
  by (auto simp: bindM_def fun_eq_iff split: prod.splits sum.splits)

lemma bindE_Inr [simp]: "bindE (Inr v) f = f v"
  by (simp add: bindE_def)

lemma bindE_Inl [simp]: "bindE (Inl e) f = Inl e"
  by (simp add: bindE_def)

lemma try_catch_returnM [simp]: "try_catch (returnM r) h s = (r, s)"
  by (simp add: try_catch_def returnM_def)

lemma mapE_getProp:
  "\<forall>r \<in> set xs. \<not> nullish r \<Longrightarrow> \<exists>ys. mapE (\<lambda>row. getProp row k) xs = Inr ys"
proof (induction xs)
  case Nil
  then show ?case by simp
next
  case (Cons x xs)
  then obtain ys where "mapE (\<lambda>row. getProp row k) xs = Inr ys" by auto
  moreover from Cons.prems obtain y where "getProp x k = Inr y"
    by (auto simp: getProp_def)
  ultimately show ?case by simp
qed

section \<open>createLeague\<close>

text \<open>Once the four fields are strings, one of them non-empty, both checks pass and the
  handler is the insert of the league document followed by the answer.\<close>

lemma createLeague_try_strings:
  assumes "getProp (body req) ''id'' = Inr (JStr i)"
      and "getProp (body req) ''name'' = Inr (JStr n)"
      and "getProp (body req) ''description'' = Inr (JStr d)"
      and "getProp (body req) ''adminId'' = Inr (JStr a)"
      and "i \<noteq> [] \<or> n \<noteq> [] \<or> d \<noteq> [] \<or> a \<noteq> []"
  shows "createLeague_try leagueService req =
           bindM (toCreateLeague leagueService i n d a)
             (\<lambda>result. returnM \<lparr>status = 200, json = result\<rparr>)"
proof -
  have "truthy (body req)" using assms(1) by (rule getProp_JStr_truthy)
  with assms show ?thesis
    by (simp add: createLeague_try_def) blast
qed

lemma createLeague_strings:
  assumes "getProp (body req) ''id'' = Inr (JStr i)"
      and "getProp (body req) ''name'' = Inr (JStr n)"
      and "getProp (body req) ''description'' = Inr (JStr d)"
      and "getProp (body req) ''adminId'' = Inr (JStr a)"
      and "i \<noteq> [] \<or> n \<noteq> [] \<or> d \<noteq> [] \<or> a \<noteq> []"
  shows "createLeague leagueService req s =
           (case collection_insert (collection (leagueController leagueService)) i
                   (JObj [(''id'', JStr i), (''type'', JStr ''mpg_league''),
                          (''adminId'', JStr a), (''name'', JStr n),
                          (''description'', JStr d)]) s of
              (Inl e, s') \<Rightarrow>
                (\<lparr>status = 500,
                  json = error_json ''An error occured whild creating the league''\<rparr>, s')
            | (Inr ack, s') \<Rightarrow> (\<lparr>status = 200, json = ack\<rparr>, s'))"
  unfolding createLeague_def createLeague_try_strings [OF assms]
  by (simp add: toCreateLeague_def controller_insert_def try_catch_def bindM_def returnM_def
        split: prod.splits sum.splits)

text \<open>
  Claim C1 says that a create-league request with one falsy field among \<^verbatim>\<open>id\<close>,
  \<^verbatim>\<open>name\<close>, \<^verbatim>\<open>description\<close>, \<^verbatim>\<open>adminId\<close> is answered with 400 and
  no insert. The handler's first check rejects only a body whose four fields are all falsy,
  and the type check that follows lets an empty string pass: with \<^verbatim>\<open>name\<close> the empty
  string and the other three fields non-empty strings, the league document is inserted
  under its id and the answer is 200 with the store's acknowledgment.
\<close>

theorem createLeague_empty_name_not_rejected:
  "createLeague (mem_service (JObj [(''cas'', JStr ''1'')]) (fixed_query JNull))
     \<lparr>body = JObj [(''id'', JStr ''l1''), (''name'', JStr []),
                   (''description'', JStr ''d''), (''adminId'', JStr ''a1'')],
      params = JObj []\<rparr> Map.empty =
   (\<lparr>status = 200, json = JObj [(''cas'', JStr ''1'')]\<rparr>,
    [''l1'' \<mapsto> JObj [(''id'', JStr ''l1''), (''type'', JStr ''mpg_league''),
                       (''adminId'', JStr ''a1''), (''name'', JStr []),
                       (''description'', JStr ''d'')]])"
  by (subst createLeague_strings [of _ "''l1''" "[]" "''d''" "''a1''"])
     (simp_all add: getProp_JObj mem_service_def mem_insert_def)

text \<open>
  Claim C6: for every create-league request whose four fields are non-empty strings, the
  handler makes exactly one store call, the insert under key \<^verbatim>\<open>id\<close> of the document
  \<^verbatim>\<open>{id, type: "mpg_league", adminId, name, description}\<close> built from the request
  fields, and when the insert returns, the answer is 200 with the acknowledgment the store
  returned as its body (500 when the insert throws). On the reference store, where the key
  is free, that document is what the store holds under \<^verbatim>\<open>id\<close> afterwards.
\<close>

theorem createLeague_persists_league:
  assumes "getProp (body req) ''id'' = Inr (JStr i)"
      and "getProp (body req) ''name'' = Inr (JStr n)"
      and "getProp (body req) ''description'' = Inr (JStr d)"
      and "getProp (body req) ''adminId'' = Inr (JStr a)"
      and "i \<noteq> []" and "n \<noteq> []" and "d \<noteq> []" and "a \<noteq> []"
  shows "createLeague leagueService req s =
           (case collection_insert (collection (leagueController leagueService)) i
                   (JObj [(''id'', JStr i), (''type'', JStr ''mpg_league''),
                          (''adminId'', JStr a), (''name'', JStr n),
                          (''description'', JStr d)]) s of
              (Inl e, s') \<Rightarrow>
                (\<lparr>status = 500,
                  json = error_json ''An error occured whild creating the league''\<rparr>, s')
            | (Inr ack, s') \<Rightarrow> (\<lparr>status = 200, json = ack\<rparr>, s'))
         \<and> (st i = None \<longrightarrow>
              createLeague (mem_service ack0 q) req st =
                (\<lparr>status = 200, json = ack0\<rparr>,
                 st(i \<mapsto> JObj [(''id'', JStr i), (''type'', JStr ''mpg_league''),
                                (''adminId'', JStr a), (''name'', JStr n),
                                (''description'', JStr d)])))"
proof -
  have ne: "i \<noteq> [] \<or> n \<noteq> [] \<or> d \<noteq> [] \<or> a \<noteq> []" using assms(5) by simp
  note run = createLeague_strings [OF assms(1-4) ne]
  show ?thesis
  proof (intro conjI impI)
    show "createLeague leagueService req s =
           (case collection_insert (collection (leagueController leagueService)) i
                   (JObj [(''id'', JStr i), (''type'', JStr ''mpg_league''),
                          (''adminId'', JStr a), (''name'', JStr n),
                          (''description'', JStr d)]) s of
              (Inl e, s') \<Rightarrow>
                (\<lparr>status = 500,
                  json = error_json ''An error occured whild creating the league''\<rparr>, s')
            | (Inr ack, s') \<Rightarrow> (\<lparr>status = 200, json = ack\<rparr>, s'))"
      by (rule run)
  next
    assume "st i = None"
    then show "createLeague (mem_service ack0 q) req st =
                (\<lparr>status = 200, json = ack0\<rparr>,
                 st(i \<mapsto> JObj [(''id'', JStr i), (''type'', JStr ''mpg_league''),
                                (''adminId'', JStr a), (''name'', JStr n),
                                (''description'', JStr d)]))"
      unfolding run by (simp add: mem_service_def mem_insert_def)
  qed
qed

theorem createLeague_persists_league_witness:
  "createLeague (mem_service (JObj [(''cas'', JStr ''1'')]) (fixed_query JNull))
     \<lparr>body = JObj [(''id'', JStr ''l1''), (''name'', JStr ''Ligue 1''),
                   (''description'', JStr ''France''), (''adminId'', JStr ''u1'')],
      params = JObj []\<rparr> Map.empty =
   (\<lparr>status = 200, json = JObj [(''cas'', JStr ''1'')]\<rparr>,
    [''l1'' \<mapsto> JObj [(''id'', JStr ''l1''), (''type'', JStr ''mpg_league''),
                       (''adminId'', JStr ''u1''), (''name'', JStr ''Ligue 1''),
                       (''description'', JStr ''France'')]])"
  using createLeague_persists_league
    [of "\<lparr>body = JObj [(''id'', JStr ''l1''), (''name'', JStr ''Ligue 1''),
                       (''description'', JStr ''France''), (''adminId'', JStr ''u1'')],
          params = JObj []\<rparr>"
        "''l1''" "''Ligue 1''" "''France''" "''u1''"
        "mem_service (JObj [(''cas'', JStr ''1'')]) (fixed_query JNull)" Map.empty
        Map.empty "JObj [(''cas'', JStr ''1'')]" "fixed_query JNull"]
  by (simp add: getProp_JObj mem_service_def mem_insert_def)

text \<open>
  Claim C7: for every create-league request in which one of the four required fields
  \<^verbatim>\<open>id\<close>, \<^verbatim>\<open>name\<close>, \<^verbatim>\<open>description\<close>, \<^verbatim>\<open>adminId\<close> is absent from the
  body, the answer has status 400 and the store is left as it was, whatever the store
  client does when called: no insert is made.
\<close>

theorem createLeague_absent_field:
  assumes k: "k \<in> {''id'', ''name'', ''description'', ''adminId''}"
      and absent: "k \<notin> fst ` set (own_props (body req))"
  shows "status (fst (createLeague leagueService req s)) = 400 \<and>
         snd (createLeague leagueService req s) = s"
proof (cases "truthy (body req)")
  case False
  then show ?thesis
    by (simp add: createLeague_def createLeague_try_def)
next
  case True
  from absent have "map_of (own_props (body req)) k = None"
    by (simp add: map_of_eq_None_iff)
  with True have undef: "getProp (body req) k = Inr JUndefined"
    by (simp add: getProp_truthy)
  from True obtain a b c d where
    "getProp (body req) ''id'' = Inr a" "getProp (body req) ''name'' = Inr b"
    "getProp (body req) ''description'' = Inr c" "getProp (body req) ''adminId'' = Inr d"
    by (simp add: getProp_truthy)
  with k undef True show ?thesis
    by (auto simp: createLeague_def createLeague_try_def)
qed

theorem createLeague_absent_field_witness:
  "status (fst (createLeague (mem_service JNull (fixed_query JNull))
      \<lparr>body = JObj [(''id'', JStr ''l1''), (''name'', JStr ''Ligue 1''),
                    (''adminId'', JStr ''u1'')],
       params = JObj []\<rparr> Map.empty)) = 400
   \<and> snd (createLeague (mem_service JNull (fixed_query JNull))
      \<lparr>body = JObj [(''id'', JStr ''l1''), (''name'', JStr ''Ligue 1''),
                    (''adminId'', JStr ''u1'')],
       params = JObj []\<rparr> Map.empty) = Map.empty"
  using createLeague_absent_field [of "''description''"
      "\<lparr>body = JObj [(''id'', JStr ''l1''), (''name'', JStr ''Ligue 1''),
                     (''adminId'', JStr ''u1'')],
        params = JObj []\<rparr>" "mem_service JNull (fixed_query JNull)" Map.empty]
  by simp

section \<open>getUsersFromLeague\<close>

text \<open>With a non-empty \<^verbatim>\<open>leagueId\<close> the handler is the query, with the league id as
  its only parameter, followed by the shaping of the result.\<close>

lemma getUsersFromLeague_try_query:
  assumes "getProp (params req) ''leagueId'' = Inr leagueId"
      and "truthy (params req)" and "truthy leagueId"
  shows "getUsersFromLeague_try leagueService req =
     bindM (cluster_query (cluster (leagueController leagueService)) users_query
              (JObj [(''parameters'', JObj [(''leagueId'', leagueId)])]))
       (\<lambda>result. liftE (
            bindE (users_found result) (\<lambda>found.
            if found then
              bindE (getProp result ''rows'') (\<lambda>rows.
              bindE (array_map (\<lambda>row. getProp row ''usersTeams'') rows) (\<lambda>mapped.
              bindE (array_flat mapped) (\<lambda>userTeams.
              bindE (getProp userTeams ''0'') (\<lambda>first.
              bindE (Object_values first) (\<lambda>vals.
                Inr \<lparr>status = 200, json = JObj [(''users'',
                   JArr (map (\<lambda>name. JObj [(''name'', name)]) vals) [])]\<rparr>)))))
            else
              Inr \<lparr>status = 204, json = JObj [(''users'', JArr [] [])]\<rparr>)))"
  using assms
  by (simp add: getUsersFromLeague_try_def toGetUsersFromLeague_def controller_query_def Let_def
      cong del: if_weak_cong)

lemma users_found_rows:
  assumes "getProp result ''rows'' = Inr (JArr (JObj kvs # rest) ps)"
  shows "users_found result = Inr (kvs \<noteq> [])"
  using assms
  by (simp add: users_found_def getProp_index0 Object_keys_def nullish_def)

lemma users_found_no_rows:
  assumes "getProp result ''rows'' = Inr (JArr [] [])"
  shows "users_found result = Inr False"
  using assms
  by (simp add: users_found_def getProp_index0_empty)

text \<open>The first element of the flattened \<^verbatim>\<open>usersTeams\<close> column is the mapping of the
  first row, provided reading the column off the later rows does not throw.\<close>

lemma pipeline_first_row:
  assumes "map_of kvs ''usersTeams'' = Some (JObj m)"
      and "\<forall>r \<in> set rest. \<not> nullish r"
  shows "bindE (array_map (\<lambda>row. getProp row ''usersTeams'') (JArr (JObj kvs # rest) ps))
           (\<lambda>mapped. bindE (array_flat mapped) (\<lambda>userTeams.
              bindE (getProp userTeams ''0'') (\<lambda>first.
              bindE (Object_values first) (\<lambda>vals. Inr (f vals)))))
         = Inr (f (map snd m))"
proof -
  from assms(2) obtain ys where "mapE (\<lambda>row. getProp row ''usersTeams'') rest = Inr ys"
    using mapE_getProp by blast
  with assms(1) show ?thesis
    by (simp add: getProp_index0 getProp_JObj Object_values_def nullish_def)
qed

text \<open>
  Claim C2: for every list-users query result whose first row is an object with a
  \<^verbatim>\<open>usersTeams\<close> mapping, the answer is 200 with \<^verbatim>\<open>{users: [...]}\<close>, the user list
  being the values of that first mapping only, each wrapped as \<^verbatim>\<open>{name: value}\<close>, in the
  mapping's iteration order, whatever further rows the query returned. For
  \<^verbatim>\<open>usersTeams = {"u1": "Alice", "u2": "Bob"}\<close> this is
  \<^verbatim>\<open>{users: [{name: "Alice"}, {name: "Bob"}]}\<close>. Rows are documents: none of the
  further rows is \<^verbatim>\<open>null\<close> or \<^verbatim>\<open>undefined\<close>.
\<close>

theorem getUsersFromLeague_first_row_values:
  assumes req: "getProp (params req) ''leagueId'' = Inr leagueId"
               "truthy (params req)" "truthy leagueId"
      and query: "cluster_query (cluster (leagueController leagueService)) users_query
                    (JObj [(''parameters'', JObj [(''leagueId'', leagueId)])]) s =
                  (Inr result, s')"
      and rows: "getProp result ''rows'' = Inr (JArr (JObj kvs # rest) ps)"
      and first: "map_of kvs ''usersTeams'' = Some (JObj m)"
      and rest: "\<forall>r \<in> set rest. \<not> nullish r"
  shows "getUsersFromLeague leagueService req s =
           (\<lparr>status = 200,
             json = JObj [(''users'',
                           JArr (map (\<lambda>v. JObj [(''name'', v)]) (map snd m)) [])]\<rparr>, s')"
proof -
  from first have ne: "kvs \<noteq> []" by auto
  have found: "users_found result = Inr True"
    using users_found_rows [OF rows] ne by simp
  show ?thesis
    unfolding getUsersFromLeague_def getUsersFromLeague_try_query [OF req]
    by (simp add: try_catch_def bindM_def liftE_def query found rows
          pipeline_first_row [OF first rest] del: array_map.simps)
qed

theorem getUsersFromLeague_first_row_values_witness:
  "getUsersFromLeague
     (mem_service JNull (fixed_query (JObj [(''rows'',
        JArr [JObj [(''usersTeams'', JObj [(''u1'', JStr ''Alice''), (''u2'', JStr ''Bob'')])],
              JObj [(''usersTeams'', JObj [(''u3'', JStr ''Carol'')])]] [])])))
     \<lparr>body = JUndefined, params = JObj [(''leagueId'', JStr ''l1'')]\<rparr> Map.empty =
   (\<lparr>status = 200,
     json = JObj [(''users'', JArr [JObj [(''name'', JStr ''Alice'')],
                                    JObj [(''name'', JStr ''Bob'')]] [])]\<rparr>, Map.empty)"
  using getUsersFromLeague_first_row_values
    [of "\<lparr>body = JUndefined, params = JObj [(''leagueId'', JStr ''l1'')]\<rparr>" "JStr ''l1''"
        "mem_service JNull (fixed_query (JObj [(''rows'',
           JArr [JObj [(''usersTeams'', JObj [(''u1'', JStr ''Alice''), (''u2'', JStr ''Bob'')])],
                 JObj [(''usersTeams'', JObj [(''u3'', JStr ''Carol'')])]] [])]))"
        Map.empty
        "JObj [(''rows'',
           JArr [JObj [(''usersTeams'', JObj [(''u1'', JStr ''Alice''), (''u2'', JStr ''Bob'')])],
                 JObj [(''usersTeams'', JObj [(''u3'', JStr ''Carol'')])]] [])]"
        Map.empty
        "[(''usersTeams'', JObj [(''u1'', JStr ''Alice''), (''u2'', JStr ''Bob'')])]"
        "[JObj [(''usersTeams'', JObj [(''u3'', JStr ''Carol'')])]]" "[]"
        "[(''u1'', JStr ''Alice''), (''u2'', JStr ''Bob'')]"]
  by (simp add: getProp_JObj mem_service_def fixed_query_def nullish_def)

text \<open>
  Claim C4: for every list-users query result with zero rows, or whose first row is the
  empty object, the answer is 204 with body \<^verbatim>\<open>{users: []}\<close>, whatever the later rows
  hold.
\<close>

theorem getUsersFromLeague_no_users_204:
  assumes req: "getProp (params req) ''leagueId'' = Inr leagueId"
               "truthy (params req)" "truthy leagueId"
      and query: "cluster_query (cluster (leagueController leagueService)) users_query
                    (JObj [(''parameters'', JObj [(''leagueId'', leagueId)])]) s =
                  (Inr result, s')"
      and rows: "getProp result ''rows'' = Inr (JArr rows [])"
      and empty: "rows = [] \<or> (\<exists>rest. rows = JObj [] # rest)"
  shows "getUsersFromLeague leagueService req s =
           (\<lparr>status = 204, json = JObj [(''users'', JArr [] [])]\<rparr>, s')"
proof -
  have "users_found result = Inr False"
  proof (cases rows)
    case Nil
    with rows show ?thesis by (simp add: users_found_no_rows)
  next
    case (Cons r rest)
    with empty have "r = JObj []" by simp
    with rows Cons show ?thesis by (simp add: users_found_rows)
  qed
  then show ?thesis
    unfolding getUsersFromLeague_def getUsersFromLeague_try_query [OF req]
    by (simp add: try_catch_def bindM_def liftE_def query)
qed

theorem getUsersFromLeague_no_users_204_witness:
  "getUsersFromLeague
     (mem_service JNull (fixed_query (JObj [(''rows'',
        JArr [JObj [], JObj [(''usersTeams'', JObj [(''u3'', JStr ''Carol'')])]] [])])))
     \<lparr>body = JUndefined, params = JObj [(''leagueId'', JStr ''l1'')]\<rparr> Map.empty =
   (\<lparr>status = 204, json = JObj [(''users'', JArr [] [])]\<rparr>, Map.empty)"
  using getUsersFromLeague_no_users_204
    [of "\<lparr>body = JUndefined, params = JObj [(''leagueId'', JStr ''l1'')]\<rparr>" "JStr ''l1''"
        "mem_service JNull (fixed_query (JObj [(''rows'',
           JArr [JObj [], JObj [(''usersTeams'', JObj [(''u3'', JStr ''Carol'')])]] [])]))"
        Map.empty
        "JObj [(''rows'',
           JArr [JObj [], JObj [(''usersTeams'', JObj [(''u3'', JStr ''Carol'')])]] [])]"
        Map.empty
        "[JObj [], JObj [(''usersTeams'', JObj [(''u3'', JStr ''Carol'')])]]"]
  by (simp add: getProp_JObj mem_service_def fixed_query_def)

text \<open>
  Claim C10: for every list-users query result whose first row is a non-empty object with
  an empty \<^verbatim>\<open>usersTeams\<close> mapping, such as \<^verbatim>\<open>{usersTeams: {}}\<close>, the answer is 200
  with \<^verbatim>\<open>{users: []}\<close> and not 204: the decision between 204 and 200 counts the own keys
  of the first row, not the entries of its \<^verbatim>\<open>usersTeams\<close> mapping. No further row is
  \<^verbatim>\<open>null\<close> or \<^verbatim>\<open>undefined\<close>.
\<close>

theorem getUsersFromLeague_empty_mapping_200:
  assumes req: "getProp (params req) ''leagueId'' = Inr leagueId"
               "truthy (params req)" "truthy leagueId"
      and query: "cluster_query (cluster (leagueController leagueService)) users_query
                    (JObj [(''parameters'', JObj [(''leagueId'', leagueId)])]) s =
                  (Inr result, s')"
      and rows: "getProp result ''rows'' = Inr (JArr (JObj kvs # rest) ps)"
      and first: "map_of kvs ''usersTeams'' = Some (JObj [])"
      and rest: "\<forall>r \<in> set rest. \<not> nullish r"
  shows "users_found result = Inr True \<and>
         getUsersFromLeague leagueService req s =
           (\<lparr>status = 200, json = JObj [(''users'', JArr [] [])]\<rparr>, s')"
proof -
  from first have ne: "kvs \<noteq> []" by auto
  have found: "users_found result = Inr True"
    using users_found_rows [OF rows] ne by simp
  have "getUsersFromLeague leagueService req s =
           (\<lparr>status = 200, json = JObj [(''users'', JArr [] [])]\<rparr>, s')"
    unfolding getUsersFromLeague_def getUsersFromLeague_try_query [OF req]
    by (simp add: try_catch_def bindM_def liftE_def query found rows
          pipeline_first_row [OF first rest] del: array_map.simps)
  with found show ?thesis by simp
qed

theorem getUsersFromLeague_empty_mapping_200_witness:
  "users_found (JObj [(''rows'',
      JArr [JObj [(''usersTeams'', JObj [])],
            JObj [(''usersTeams'', JObj [(''u3'', JStr ''Carol'')])]] [])]) = Inr True \<and>
   getUsersFromLeague
     (mem_service JNull (fixed_query (JObj [(''rows'',
        JArr [JObj [(''usersTeams'', JObj [])],
              JObj [(''usersTeams'', JObj [(''u3'', JStr ''Carol'')])]] [])])))
     \<lparr>body = JUndefined, params = JObj [(''leagueId'', JStr ''l1'')]\<rparr> Map.empty =
   (\<lparr>status = 200, json = JObj [(''users'', JArr [] [])]\<rparr>, Map.empty)"
  using getUsersFromLeague_empty_mapping_200
    [of "\<lparr>body = JUndefined, params = JObj [(''leagueId'', JStr ''l1'')]\<rparr>" "JStr ''l1''"
        "mem_service JNull (fixed_query (JObj [(''rows'',
           JArr [JObj [(''usersTeams'', JObj [])],
                 JObj [(''usersTeams'', JObj [(''u3'', JStr ''Carol'')])]] [])]))"
        Map.empty
        "JObj [(''rows'',
           JArr [JObj [(''usersTeams'', JObj [])],
                 JObj [(''usersTeams'', JObj [(''u3'', JStr ''Carol'')])]] [])]"
        Map.empty
        "[(''usersTeams'', JObj [])]"
        "[JObj [(''usersTeams'', JObj [(''u3'', JStr ''Carol'')])]]" "[]"]
  by (simp add: getProp_JObj mem_service_def fixed_query_def nullish_def)

section \<open>updateTeamName\<close>

text \<open>With a non-empty string for \<^verbatim>\<open>teamId\<close> and for \<^verbatim>\<open>name\<close> the checks pass and
  the handler is the fetch, the test of what was fetched, the assignment and the replace.\<close>

lemma updateTeamName_try_valid:
  assumes "getProp (params req) ''teamId'' = Inr (JStr t)"
      and "getProp (body req) ''name'' = Inr (JStr n)"
      and "t \<noteq> []" and "n \<noteq> []"
  shows "updateTeamName_try leagueService req =
     bindM (collection_get (collection (leagueController leagueService)) t) (\<lambda>result.
       if \<not> truthy result
       then returnM \<lparr>status = 404, json = error_json ''Team not found''\<rparr>
       else
         bindM (liftE (getProp result ''content'')) (\<lambda>content.
         if \<not> truthy content
         then returnM \<lparr>status = 404, json = error_json ''Team not found''\<rparr>
         else
           bindM (liftE (setProp content ''name'' (JStr n))) (\<lambda>team.
           bindM (collection_replace (collection (leagueController leagueService)) t team) (\<lambda>_.
           returnM \<lparr>status = 200,
                    json = JObj [(''message'', JStr ''Team name updated successfully'')]\<rparr>))))"
proof -
  have "truthy (params req)" "truthy (body req)"
    using assms(1,2) by (auto intro: getProp_JStr_truthy)
  with assms show ?thesis
    by (simp add: updateTeamName_try_def toGetTeam_def controller_get_def toUpdateTeam_def
          controller_replace_def bindM_assoc cong del: if_weak_cong)
qed

lemma updateTeamName_found:
  assumes req: "getProp (params req) ''teamId'' = Inr (JStr t)"
               "getProp (body req) ''name'' = Inr (JStr n)" "t \<noteq> []" "n \<noteq> []"
      and get: "collection_get (collection (leagueController leagueService)) t s =
                (Inr result, s1)"
      and content: "getProp result ''content'' = Inr (JObj kvs)"
  shows "updateTeamName leagueService req s =
           (case collection_replace (collection (leagueController leagueService)) t
                   (JObj (AList.update ''name'' (JStr n) kvs)) s1 of
              (Inl e, s2) \<Rightarrow>
                (\<lparr>status = 500,
                  json = error_json ''An error occured while updating team''\<rparr>, s2)
            | (Inr ack, s2) \<Rightarrow>
                (\<lparr>status = 200,
                  json = JObj [(''message'', JStr ''Team name updated successfully'')]\<rparr>,
                 s2))"
proof -
  have "truthy result" using content by (rule getProp_defined_truthy) simp
  then show ?thesis
    unfolding updateTeamName_def updateTeamName_try_valid [OF req]
    by (simp add: try_catch_def bindM_def get returnM_def liftE_def content
          split: prod.splits sum.splits)
qed

lemma updateTeamName_get_throws:
  assumes req: "getProp (params req) ''teamId'' = Inr (JStr t)"
               "getProp (body req) ''name'' = Inr (JStr n)" "t \<noteq> []" "n \<noteq> []"
      and get: "collection_get (collection (leagueController leagueService)) t s = (Inl e, s')"
  shows "updateTeamName leagueService req s =
           (\<lparr>status = 500, json = error_json ''An error occured while updating team''\<rparr>, s')"
  unfolding updateTeamName_def updateTeamName_try_valid [OF req]
  by (simp add: try_catch_def bindM_def get)

text \<open>A request that is not a non-empty string \<^verbatim>\<open>teamId\<close> with a non-empty string
  \<^verbatim>\<open>name\<close> is answered 400.\<close>

lemma updateTeamName_invalid_400:
  assumes "\<not> (\<exists>t n. getProp (params req) ''teamId'' = Inr (JStr t) \<and>
               getProp (body req) ''name'' = Inr (JStr n) \<and> t \<noteq> [] \<and> n \<noteq> [])"
  shows "status (fst (updateTeamName leagueService req s)) = 400"
proof (cases "truthy (body req) \<and> truthy (params req)")
  case False
  then have "updateTeamName_try leagueService req =
      returnM \<lparr>status = 400,
               json = error_json ''Request body or request params is undefined''\<rparr>"
    unfolding updateTeamName_try_def by (simp only: de_Morgan_conj if_True)
  then show ?thesis
    by (simp add: updateTeamName_def)
next
  case True
  then obtain a b where ab: "getProp (params req) ''teamId'' = Inr a"
      "getProp (body req) ''name'' = Inr b"
    by (simp add: getProp_truthy)
  have bad: "\<not> truthy a \<or> \<not> truthy b \<or> typeof a \<noteq> ''string'' \<or> typeof b \<noteq> ''string''"
    using assms ab by (cases a; cases b) auto
  have "\<exists>msg. updateTeamName_try leagueService req =
           returnM \<lparr>status = 400, json = error_json msg\<rparr>"
    unfolding updateTeamName_try_def using True ab bad
    by (simp only: simp_thms if_False bindM_liftE_Inr split: if_split) blast
  then show ?thesis
    by (auto simp: updateTeamName_def)
qed

lemma updateTeamName_200_valid:
  assumes "status (fst (updateTeamName leagueService req s)) = 200"
  shows "\<exists>t n. getProp (params req) ''teamId'' = Inr (JStr t) \<and>
               getProp (body req) ''name'' = Inr (JStr n) \<and> t \<noteq> [] \<and> n \<noteq> []"
proof (rule ccontr)
  assume "\<not> ?thesis"
  then have "status (fst (updateTeamName leagueService req s)) = 400"
    by (rule updateTeamName_invalid_400)
  with assms show False by simp
qed

text \<open>The handler on the reference store.\<close>

lemma updateTeamName_mem:
  assumes req: "getProp (params req) ''teamId'' = Inr (JStr t)"
               "getProp (body req) ''name'' = Inr (JStr n)" "t \<noteq> []" "n \<noteq> []"
  shows "updateTeamName (mem_service ack q) req s =
           (case s t of
              None \<Rightarrow>
                (\<lparr>status = 500,
                  json = error_json ''An error occured while updating team''\<rparr>, s)
            | Some d \<Rightarrow>
                if \<not> truthy d
                then (\<lparr>status = 404, json = error_json ''Team not found''\<rparr>, s)
                else case setProp d ''name'' (JStr n) of
                       Inl e \<Rightarrow>
                         (\<lparr>status = 500,
                           json = error_json ''An error occured while updating team''\<rparr>, s)
                     | Inr d' \<Rightarrow>
                         (\<lparr>status = 200,
                           json = JObj [(''message'',
                                         JStr ''Team name updated successfully'')]\<rparr>,
                          s(t \<mapsto> d')))"
proof (cases "s t")
  case None
  then show ?thesis
    unfolding updateTeamName_def updateTeamName_try_valid [OF req]
    by (simp add: try_catch_def bindM_def mem_service_def mem_get_def)
next
  case (Some d)
  show ?thesis
  proof (cases "truthy d")
    case False
    with Some show ?thesis
      unfolding updateTeamName_def updateTeamName_try_valid [OF req]
      by (simp add: try_catch_def bindM_def returnM_def liftE_def mem_service_def mem_get_def
          getProp_JObj)
  next
    case True
    show ?thesis
    proof (cases "setProp d ''name'' (JStr n)")
      case (Inl e)
      with Some True show ?thesis
        unfolding updateTeamName_def updateTeamName_try_valid [OF req]
        by (simp add: try_catch_def bindM_def returnM_def liftE_def mem_service_def mem_get_def
            getProp_JObj)
    next
      case (Inr d')
      with Some True show ?thesis
        unfolding updateTeamName_def updateTeamName_try_valid [OF req]
        by (simp add: try_catch_def bindM_def returnM_def liftE_def mem_service_def mem_get_def
            mem_replace_def getProp_JObj)
    qed
  qed
qed

text \<open>On the reference store, whose \<^verbatim>\<open>get\<close> throws on a missing key, an update of a
  team that is not stored is answered 500, and nothing is written.\<close>

lemma updateTeamName_missing_key:
  assumes "getProp (params req) ''teamId'' = Inr (JStr t)"
      and "getProp (body req) ''name'' = Inr (JStr n)" and "t \<noteq> []" and "n \<noteq> []"
      and "s t = None"
  shows "updateTeamName (mem_service ack q) req s =
           (\<lparr>status = 500, json = error_json ''An error occured while updating team''\<rparr>, s)"
  unfolding updateTeamName_mem [OF assms(1-4)] using assms(5)
  by simp

text \<open>When the fetch returns, but returns no document or a document without content, the
  answer is 404 with \<^verbatim>\<open>{error: "Team not found"}\<close> and the store is in the state the
  fetch left it in. This is the only path to the 404 answer.\<close>

lemma updateTeamName_fetch_without_content:
  assumes req: "getProp (params req) ''teamId'' = Inr (JStr t)"
               "getProp (body req) ''name'' = Inr (JStr n)" "t \<noteq> []" "n \<noteq> []"
      and get: "collection_get (collection (leagueController leagueService)) t s =
                (Inr result, s')"
      and missing: "\<not> truthy result \<or> (getProp result ''content'' = Inr c \<and> \<not> truthy c)"
  shows "updateTeamName leagueService req s =
           (\<lparr>status = 404, json = error_json ''Team not found''\<rparr>, s')"
proof (cases "truthy result")
  case False
  then show ?thesis
    unfolding updateTeamName_def updateTeamName_try_valid [OF req]
    by (simp add: try_catch_def bindM_def get returnM_def)
next
  case True
  with missing have "getProp result ''content'' = Inr c" "\<not> truthy c" by auto
  with True show ?thesis
    unfolding updateTeamName_def updateTeamName_try_valid [OF req]
    by (simp add: try_catch_def bindM_def get returnM_def liftE_def)
qed

text \<open>
  Claim C3 says that an update-team request with a valid string \<^verbatim>\<open>teamId\<close> and
  \<^verbatim>\<open>name\<close> that refers to a non-existent team, on a store client that throws on a
  missing-key get, is answered 404 with no write to the store. On such a store the fetch
  of a missing key does not return: the exception skips the test that answers 404 and
  reaches the handler's catch block. With a store that holds team \<^verbatim>\<open>t0\<close> only and a
  request to rename team \<^verbatim>\<open>t1\<close>, the answer is 500 with
  \<^verbatim>\<open>{error: "An error occured while updating team"}\<close>; the store is left unchanged.
\<close>

theorem updateTeamName_missing_team_answers_500:
  "updateTeamName (mem_service JNull (fixed_query JNull))
     \<lparr>body = JObj [(''name'', JStr ''NewName'')], params = JObj [(''teamId'', JStr ''t1'')]\<rparr>
     [''t0'' \<mapsto> JObj [(''name'', JStr ''Old'')]] =
   (\<lparr>status = 500, json = error_json ''An error occured while updating team''\<rparr>,
    [''t0'' \<mapsto> JObj [(''name'', JStr ''Old'')]])"
  by (subst updateTeamName_missing_key [of _ "''t1''" "''NewName''"])
     (simp_all add: getProp_JObj)

text \<open>
  Claim C5: for every update-team request with a non-empty string \<^verbatim>\<open>teamId\<close> and
  \<^verbatim>\<open>name\<close> whose fetch returns a document with an object as content, the handler
  replaces, under the same \<^verbatim>\<open>teamId\<close>, the fetched content with its \<^verbatim>\<open>name\<close> set to
  the new value: in the document written back \<^verbatim>\<open>name\<close> is the new value, every other
  field reads as in the fetched content, and the keys are those of the fetched content
  (with \<^verbatim>\<open>name\<close> added last if it was not there). When the replace returns, the answer is
  200 with \<^verbatim>\<open>{message: "Team name updated successfully"}\<close>.
\<close>

theorem updateTeamName_writes_back:
  assumes req: "getProp (params req) ''teamId'' = Inr (JStr t)"
               "getProp (body req) ''name'' = Inr (JStr n)" "t \<noteq> []" "n \<noteq> []"
      and get: "collection_get (collection (leagueController leagueService)) t s =
                (Inr result, s1)"
      and content: "getProp result ''content'' = Inr (JObj kvs)"
      and written: "written = JObj (AList.update ''name'' (JStr n) kvs)"
  shows "updateTeamName leagueService req s =
           (case collection_replace (collection (leagueController leagueService)) t written s1 of
              (Inl e, s2) \<Rightarrow>
                (\<lparr>status = 500,
                  json = error_json ''An error occured while updating team''\<rparr>, s2)
            | (Inr ack, s2) \<Rightarrow>
                (\<lparr>status = 200,
                  json = JObj [(''message'', JStr ''Team name updated successfully'')]\<rparr>,
                 s2))
         \<and> getProp written ''name'' = Inr (JStr n)
         \<and> (\<forall>k. k \<noteq> ''name'' \<longrightarrow> getProp written k = getProp (JObj kvs) k)
         \<and> Object_keys written =
             Inr (if ''name'' \<in> fst ` set kvs then map fst kvs else map fst kvs @ [''name''])"
  unfolding written
  using updateTeamName_found [OF req get content] updated_fields [where k = "''name''" and x = "JStr n" and kvs = kvs]
  by simp

theorem updateTeamName_writes_back_witness:
  "updateTeamName (mem_service JNull (fixed_query JNull))
     \<lparr>body = JObj [(''name'', JStr ''NewName'')], params = JObj [(''teamId'', JStr ''t1'')]\<rparr>
     [''t1'' \<mapsto> JObj [(''id'', JStr ''t1''), (''name'', JStr ''Old''), (''score'', JNum 3)]] =
   (\<lparr>status = 200, json = JObj [(''message'', JStr ''Team name updated successfully'')]\<rparr>,
    [''t1'' \<mapsto> JObj [(''id'', JStr ''t1''), (''name'', JStr ''NewName''), (''score'', JNum 3)]])"
  using updateTeamName_writes_back
    [of "\<lparr>body = JObj [(''name'', JStr ''NewName'')],
          params = JObj [(''teamId'', JStr ''t1'')]\<rparr>"
        "''t1''" "''NewName''" "mem_service JNull (fixed_query JNull)"
        "[''t1'' \<mapsto> JObj [(''id'', JStr ''t1''), (''name'', JStr ''Old''), (''score'', JNum 3)]]"
        "JObj [(''content'',
               JObj [(''id'', JStr ''t1''), (''name'', JStr ''Old''), (''score'', JNum 3)])]"
        "[''t1'' \<mapsto> JObj [(''id'', JStr ''t1''), (''name'', JStr ''Old''), (''score'', JNum 3)]]"
        "[(''id'', JStr ''t1''), (''name'', JStr ''Old''), (''score'', JNum 3)]"
        "JObj [(''id'', JStr ''t1''), (''name'', JStr ''NewName''), (''score'', JNum 3)]"]
  by (simp add: getProp_JObj mem_service_def mem_get_def mem_replace_def)

text \<open>
  Claim C8: on the reference store, when an update-team call has succeeded (answer 200),
  the same call made again (same \<^verbatim>\<open>teamId\<close>, same \<^verbatim>\<open>name\<close>) succeeds with the same
  answer and leaves the store, hence the team document, exactly as the first call left it.
\<close>

theorem updateTeamName_idempotent:
  assumes once: "updateTeamName (mem_service ack q) req s = (r1, s1)"
      and ok: "status r1 = 200"
  shows "updateTeamName (mem_service ack q) req s1 = (r1, s1)"
proof -
  from once ok have "status (fst (updateTeamName (mem_service ack q) req s)) = 200"
    by simp
  then obtain t n where req: "getProp (params req) ''teamId'' = Inr (JStr t)"
      "getProp (body req) ''name'' = Inr (JStr n)" "t \<noteq> []" "n \<noteq> []"
    using updateTeamName_200_valid [of "mem_service ack q" req s] by auto
  note run = updateTeamName_mem [OF req, of ack q]
  from once ok obtain d where d: "s t = Some d"
    unfolding run by (cases "s t") auto
  from once ok d have td: "truthy d"
    unfolding run by (cases "truthy d") auto
  from once ok d td obtain d' where d': "setProp d ''name'' (JStr n) = Inr d'"
    unfolding run by (cases "setProp d ''name'' (JStr n)") auto
  from once d td d' have res: "s1 = s(t \<mapsto> d')"
    "r1 = \<lparr>status = 200, json = JObj [(''message'', JStr ''Team name updated successfully'')]\<rparr>"
    unfolding run by auto
  from d' have again: "setProp d' ''name'' (JStr n) = Inr d'" "truthy d'"
    using setProp_twice [of d "''name''" "JStr n" d'] by simp_all
  show ?thesis
    unfolding run using res again by simp
qed

theorem updateTeamName_idempotent_witness:
  "updateTeamName (mem_service JNull (fixed_query JNull))
     \<lparr>body = JObj [(''name'', JStr ''NewName'')], params = JObj [(''teamId'', JStr ''t1'')]\<rparr>
     [''t1'' \<mapsto> JObj [(''id'', JStr ''t1''), (''name'', JStr ''NewName'')]] =
   (\<lparr>status = 200, json = JObj [(''message'', JStr ''Team name updated successfully'')]\<rparr>,
    [''t1'' \<mapsto> JObj [(''id'', JStr ''t1''), (''name'', JStr ''NewName'')]])"
proof -
  have first: "updateTeamName (mem_service JNull (fixed_query JNull))
     \<lparr>body = JObj [(''name'', JStr ''NewName'')], params = JObj [(''teamId'', JStr ''t1'')]\<rparr>
     [''t1'' \<mapsto> JObj [(''id'', JStr ''t1''), (''name'', JStr ''Old'')]] =
   (\<lparr>status = 200, json = JObj [(''message'', JStr ''Team name updated successfully'')]\<rparr>,
    [''t1'' \<mapsto> JObj [(''id'', JStr ''t1''), (''name'', JStr ''NewName'')]])"
    by (subst updateTeamName_mem [of _ "''t1''" "''NewName''"]) (simp_all add: getProp_JObj)
  show ?thesis
    by (rule updateTeamName_idempotent [OF first]) simp
qed

section \<open>Exceptions of the store\<close>

lemma getUsersFromLeague_query_throws:
  assumes req: "getProp (params req) ''leagueId'' = Inr leagueId"
               "truthy (params req)" "truthy leagueId"
      and query: "cluster_query (cluster (leagueController leagueService)) users_query
                    (JObj [(''parameters'', JObj [(''leagueId'', leagueId)])]) s = (Inl e, s')"
  shows "getUsersFromLeague leagueService req s =
           (\<lparr>status = 500,
             json = error_json ''Error occured while retrieving users from a league''\<rparr>, s')"
  unfolding getUsersFromLeague_def getUsersFromLeague_try_query [OF req]
  by (simp add: try_catch_def bindM_def query)

lemma updateTeamName_replace_throws:
  assumes req: "getProp (params req) ''teamId'' = Inr (JStr t)"
               "getProp (body req) ''name'' = Inr (JStr n)" "t \<noteq> []" "n \<noteq> []"
      and get: "collection_get (collection (leagueController leagueService)) t s =
                (Inr result, s1)"
      and content: "getProp result ''content'' = Inr content" "truthy content"
      and team: "setProp content ''name'' (JStr n) = Inr team"
      and replace: "collection_replace (collection (leagueController leagueService)) t team s1 =
                    (Inl e, s')"
  shows "updateTeamName leagueService req s =
           (\<lparr>status = 500, json = error_json ''An error occured while updating team''\<rparr>, s')"
proof -
  from content(2) have "content \<noteq> JUndefined" by auto
  with content(1) have "truthy result" by (rule getProp_defined_truthy)
  then show ?thesis
    unfolding updateTeamName_def updateTeamName_try_valid [OF req]
    by (simp add: try_catch_def bindM_def get liftE_def content team replace)
qed

text \<open>
  Claim C9: in each of the three handlers, when a call to the store throws (the insert of
  create-league, the query of list-users, the fetch or the replace of update-team), the
  handler catches the exception and answers 500 with its own fixed message, the same for
  every exception, so that nothing of the exception's text reaches the answer. A handler
  returns an answer in every case: no exception leaves it. The requests are all those that
  reach the store call: for the insert, four string fields that are not all empty; for the
  query, a truthy \<^verbatim>\<open>leagueId\<close>; for the fetch, a non-empty string \<^verbatim>\<open>teamId\<close> and
  \<^verbatim>\<open>name\<close>; for the replace, moreover a fetched content that is truthy and takes the
  assignment of \<^verbatim>\<open>name\<close>.
\<close>

theorem handlers_catch_store_errors:
  assumes creq: "getProp (body creq) ''id'' = Inr (JStr i)"
                "getProp (body creq) ''name'' = Inr (JStr n)"
                "getProp (body creq) ''description'' = Inr (JStr d)"
                "getProp (body creq) ''adminId'' = Inr (JStr a)"
                "i \<noteq> [] \<or> n \<noteq> [] \<or> d \<noteq> [] \<or> a \<noteq> []"
      and lreq: "getProp (params lreq) ''leagueId'' = Inr leagueId"
                "truthy (params lreq)" "truthy leagueId"
      and ureq: "getProp (params ureq) ''teamId'' = Inr (JStr t)"
                "getProp (body ureq) ''name'' = Inr (JStr tn)" "t \<noteq> []" "tn \<noteq> []"
  shows "(collection_insert (collection (leagueController leagueService)) i
            (JObj [(''id'', JStr i), (''type'', JStr ''mpg_league''),
                   (''adminId'', JStr a), (''name'', JStr n),
                   (''description'', JStr d)]) s = (Inl e, s') \<longrightarrow>
          createLeague leagueService creq s =
            (\<lparr>status = 500,
              json = error_json ''An error occured whild creating the league''\<rparr>, s'))
       \<and> (cluster_query (cluster (leagueController leagueService)) users_query
            (JObj [(''parameters'', JObj [(''leagueId'', leagueId)])]) s = (Inl e, s') \<longrightarrow>
          getUsersFromLeague leagueService lreq s =
            (\<lparr>status = 500,
              json = error_json ''Error occured while retrieving users from a league''\<rparr>, s'))
       \<and> (collection_get (collection (leagueController leagueService)) t s = (Inl e, s') \<longrightarrow>
          updateTeamName leagueService ureq s =
            (\<lparr>status = 500, json = error_json ''An error occured while updating team''\<rparr>, s'))
       \<and> (collection_get (collection (leagueController leagueService)) t s = (Inr result, s1) \<and>
          getProp result ''content'' = Inr content \<and> truthy content \<and>
          setProp content ''name'' (JStr tn) = Inr team \<and>
          collection_replace (collection (leagueController leagueService)) t team s1 =
            (Inl e, s') \<longrightarrow>
          updateTeamName leagueService ureq s =
            (\<lparr>status = 500, json = error_json ''An error occured while updating team''\<rparr>, s'))"
proof (intro conjI impI)
  assume "collection_insert (collection (leagueController leagueService)) i
            (JObj [(''id'', JStr i), (''type'', JStr ''mpg_league''),
                   (''adminId'', JStr a), (''name'', JStr n),
                   (''description'', JStr d)]) s = (Inl e, s')"
  then show "createLeague leagueService creq s =
            (\<lparr>status = 500,
              json = error_json ''An error occured whild creating the league''\<rparr>, s')"
    using createLeague_strings [OF creq, of leagueService s] by simp
next
  assume "cluster_query (cluster (leagueController leagueService)) users_query
            (JObj [(''parameters'', JObj [(''leagueId'', leagueId)])]) s = (Inl e, s')"
  then show "getUsersFromLeague leagueService lreq s =
            (\<lparr>status = 500,
              json = error_json ''Error occured while retrieving users from a league''\<rparr>, s')"
    by (rule getUsersFromLeague_query_throws [OF lreq])
next
  assume "collection_get (collection (leagueController leagueService)) t s = (Inl e, s')"
  then show "updateTeamName leagueService ureq s =
            (\<lparr>status = 500, json = error_json ''An error occured while updating team''\<rparr>, s')"
    by (rule updateTeamName_get_throws [OF ureq])
next
  assume *: "collection_get (collection (leagueController leagueService)) t s = (Inr result, s1) \<and>
          getProp result ''content'' = Inr content \<and> truthy content \<and>
          setProp content ''name'' (JStr tn) = Inr team \<and>
          collection_replace (collection (leagueController leagueService)) t team s1 =
            (Inl e, s')"
  show "updateTeamName leagueService ureq s =
            (\<lparr>status = 500, json = error_json ''An error occured while updating team''\<rparr>, s')"
    using * updateTeamName_replace_throws [OF ureq, of leagueService s result s1 content team e s']
    by simp
qed

theorem handlers_catch_store_errors_witness:
  "createLeague (failing_service (StoreError ''cas mismatch on node 10.0.0.7''))
     \<lparr>body = JObj [(''id'', JStr ''l1''), (''name'', JStr ''Ligue 1''),
                   (''description'', JStr ''France''), (''adminId'', JStr ''u1'')],
      params = JObj []\<rparr> () =
     (\<lparr>status = 500, json = error_json ''An error occured whild creating the league''\<rparr>, ())
   \<and> getUsersFromLeague (failing_service (StoreError ''cas mismatch on node 10.0.0.7''))
       \<lparr>body = JUndefined, params = JObj [(''leagueId'', JStr ''l1'')]\<rparr> () =
     (\<lparr>status = 500,
       json = error_json ''Error occured while retrieving users from a league''\<rparr>, ())
   \<and> updateTeamName (failing_service (StoreError ''cas mismatch on node 10.0.0.7''))
       \<lparr>body = JObj [(''name'', JStr ''NewName'')],
        params = JObj [(''teamId'', JStr ''t1'')]\<rparr> () =
     (\<lparr>status = 500, json = error_json ''An error occured while updating team''\<rparr>, ())
   \<and> updateTeamName
       (readonly_service (StoreError ''cas mismatch on node 10.0.0.7'')
          (JObj [(''name'', JStr ''Old'')]))
       \<lparr>body = JObj [(''name'', JStr ''NewName'')],
        params = JObj [(''teamId'', JStr ''t1'')]\<rparr> () =
     (\<lparr>status = 500, json = error_json ''An error occured while updating team''\<rparr>, ())"
  using handlers_catch_store_errors
    [where creq = "\<lparr>body = JObj [(''id'', JStr ''l1''), (''name'', JStr ''Ligue 1''),
                                  (''description'', JStr ''France''), (''adminId'', JStr ''u1'')],
                     params = JObj []\<rparr>"
       and i = "''l1''" and n = "''Ligue 1''" and d = "''France''" and a = "''u1''"
       and lreq = "\<lparr>body = JUndefined, params = JObj [(''leagueId'', JStr ''l1'')]\<rparr>"
       and leagueId = "JStr ''l1''"
       and ureq = "\<lparr>body = JObj [(''name'', JStr ''NewName'')],
                     params = JObj [(''teamId'', JStr ''t1'')]\<rparr>"
       and t = "''t1''" and tn = "''NewName''"
       and leagueService = "failing_service (StoreError ''cas mismatch on node 10.0.0.7'')"
       and s = "()" and s' = "()" and e = "StoreError ''cas mismatch on node 10.0.0.7''"]
    handlers_catch_store_errors
    [where creq = "\<lparr>body = JObj [(''id'', JStr ''l1''), (''name'', JStr ''Ligue 1''),
                                  (''description'', JStr ''France''), (''adminId'', JStr ''u1'')],
                     params = JObj []\<rparr>"
       and i = "''l1''" and n = "''Ligue 1''" and d = "''France''" and a = "''u1''"
       and lreq = "\<lparr>body = JUndefined, params = JObj [(''leagueId'', JStr ''l1'')]\<rparr>"
       and leagueId = "JStr ''l1''"
       and ureq = "\<lparr>body = JObj [(''name'', JStr ''NewName'')],
                     params = JObj [(''teamId'', JStr ''t1'')]\<rparr>"
       and t = "''t1''" and tn = "''NewName''"
       and leagueService = "readonly_service (StoreError ''cas mismatch on node 10.0.0.7'')
                              (JObj [(''name'', JStr ''Old'')])"
       and s = "()" and s' = "()" and e = "StoreError ''cas mismatch on node 10.0.0.7''"
       and result = "JObj [(''content'', JObj [(''name'', JStr ''Old'')])]"
       and ?s1.0 = "()" and content = "JObj [(''name'', JStr ''Old'')]"
       and team = "JObj [(''name'', JStr ''NewName'')]"]
  by (simp add: getProp_JObj failing_service_def readonly_service_def)

end
